theory Spec2Isabelle
  imports Complex_Main "HOL-Library.Multiset"
begin

section \<open>Strings\<close>

text \<open>
  A Python \<open>str\<close> is a sequence of Unicode code points and a JavaScript string a
  sequence of UTF-16 code units. Both are lists of numbers here; \<open>lit\<close> embeds an
  ASCII literal of the source.
\<close>

type_synonym pystr = "nat list"
type_synonym jsstr = "nat list"

definition lit :: "string \<Rightarrow> nat list" where
  "lit s = map of_char s"

section \<open>The request handler (\<open>api_ner\<close>)\<close>

subsection \<open>Values of the Python side\<close>

text \<open>
  What \<open>request.get_json(silent=True)\<close> hands to the handler: \<open>None\<close> when the body
  is absent, is not declared as JSON or does not parse, and the parsed value
  otherwise. A parsed object is a Python \<open>dict\<close>, kept as an association list in
  insertion order.
\<close>

datatype json =
    JNull
  | JBool bool
  | JInt int
  | JFloat real
  | JStr pystr
  | JArr "json list"
  | JObj "(pystr \<times> json) list"

datatype pyerror = AttributeError | ExtractionError

datatype response = Response (status: nat) (body: json)

text \<open>An entity of \<open>doc.ents\<close>: \<open>ent.text\<close>, \<open>ent.label_\<close>, \<open>ent.start_char\<close>, \<open>ent.end_char\<close>.\<close>

record ent =
  ent_text :: pystr
  ent_label :: pystr
  ent_start_char :: int
  ent_end_char :: int

text \<open>Python's truth value of a parsed JSON value, as \<open>or\<close> tests it.\<close>

fun truthy :: "json \<Rightarrow> bool" where
  "truthy JNull = False"
| "truthy (JBool b) = b"
| "truthy (JInt i) = (i \<noteq> 0)"
| "truthy (JFloat x) = (x \<noteq> 0)"
| "truthy (JStr s) = (s \<noteq> [])"
| "truthy (JArr xs) = (xs \<noteq> [])"
| "truthy (JObj kvs) = (kvs \<noteq> [])"

text \<open>\<open>x or {}\<close> on the result of \<open>get_json\<close>.\<close>

definition or_empty_dict :: "json option \<Rightarrow> json" where
  "or_empty_dict x = (case x of None \<Rightarrow> JObj [] | Some v \<Rightarrow> if truthy v then v else JObj [])"

text \<open>
  \<open>data.get(key, default)\<close>: only a \<open>dict\<close> has the method; on a list, a string, a
  number or a boolean the attribute lookup raises \<open>AttributeError\<close>.
\<close>

fun py_get :: "json \<Rightarrow> pystr \<Rightarrow> json \<Rightarrow> pyerror + json" where
  "py_get (JObj kvs) key dflt =
     Inr (case map_of kvs key of None \<Rightarrow> dflt | Some v \<Rightarrow> v)"
| "py_get _ key dflt = Inl AttributeError"

text \<open>
  The characters \<open>str.strip()\<close> removes: those for which \<open>str.isspace\<close> holds
  (the ASCII controls 9 to 13 and 28 to 31, the space, and Unicode's other white
  space).
\<close>

definition py_isspace :: "nat \<Rightarrow> bool" where
  "py_isspace c =
     (c \<in> set [9, 10, 11, 12, 13, 28, 29, 30, 31, 32, 133, 160, 5760,
               8232, 8233, 8239, 8287, 12288]
      \<or> (8192 \<le> c \<and> c \<le> 8202))"

definition strip :: "pystr \<Rightarrow> pystr" where
  "strip s = rev (dropWhile py_isspace (rev (dropWhile py_isspace s)))"

subsection \<open>The handler\<close>

text \<open>
  The dictionary appended for one entity, keys in the order the source writes
  them (the order of the keys of an object carries no meaning in JSON).
\<close>

definition ent_json :: "ent \<Rightarrow> json" where
  "ent_json e =
     JObj [(lit ''text'', JStr (ent_text e)),
           (lit ''label'', JStr (ent_label e)),
           (lit ''start'', JInt (ent_start_char e)),
           (lit ''end'', JInt (ent_end_char e))]"

definition no_text_provided :: response where
  "no_text_provided = Response 400 (JObj [(lit ''error'', JStr (lit ''No text provided''))])"

text \<open>
  \<open>api_ner\<close>. The model \<open>nlp\<close> is a parameter: it returns the entities of \<open>doc.ents\<close>
  in their order, or raises. The handler catches nothing, so an exception leaves it
  (\<open>Inl\<close>). \<open>jsonify(...)\<close> alone is a response of status 200.
\<close>

definition api_ner :: "(pystr \<Rightarrow> pyerror + ent list) \<Rightarrow> json option \<Rightarrow> pyerror + response" where
  "api_ner nlp request_json =
     (let data = or_empty_dict request_json in
      case py_get data (lit ''text'') (JStr []) of
        Inl err \<Rightarrow> Inl err
      | Inr text \<Rightarrow>
          (case text of
             JStr s \<Rightarrow>
               if strip s = [] then Inr no_text_provided
               else (case nlp s of
                       Inl err \<Rightarrow> Inl err
                     | Inr ents \<Rightarrow>
                         Inr (Response 200 (JObj [(lit ''entities'', JArr (map ent_json ents))])))
           | _ \<Rightarrow> Inr no_text_provided))"

text \<open>The status the client sees: Flask answers an exception that leaves a view with 500.\<close>

definition http_status :: "pyerror + response \<Rightarrow> nat" where
  "http_status r = (case r of Inl err \<Rightarrow> 500 | Inr resp \<Rightarrow> status resp)"

section \<open>The page script\<close>

subsection \<open>Strings and numbers of the JavaScript side\<close>

text \<open>
  \<open>s.slice(start, end)\<close>: a negative index counts from the end, both are clipped to
  the string, and nothing is returned when the range is empty. \<open>s.slice(start)\<close>
  runs to the end of the string.
\<close>

definition slice :: "jsstr \<Rightarrow> int \<Rightarrow> int \<Rightarrow> jsstr" where
  "slice s start stop =
     (let len = int (length s);
          lo = (if start < 0 then max (len + start) 0 else min start len);
          hi = (if stop < 0 then max (len + stop) 0 else min stop len)
      in take (nat (hi - lo)) (drop (nat lo) s))"

definition slice_from :: "jsstr \<Rightarrow> int \<Rightarrow> jsstr" where
  "slice_from s start = slice s start (int (length s))"

text \<open>\<open>str.replace(/c/g, rep)\<close> for a single character \<open>c\<close>.\<close>

definition replace_all :: "nat \<Rightarrow> jsstr \<Rightarrow> jsstr \<Rightarrow> jsstr" where
  "replace_all c rep str = concat (map (\<lambda>x. if x = c then rep else [x]) str)"

text \<open>\<open>escapeHtml\<close>: the three replacements in the order of the source (38 is the
  ampersand, 60 and 62 the angle brackets).\<close>

definition escapeHtml :: "jsstr \<Rightarrow> jsstr" where
  "escapeHtml str =
     replace_all 62 (lit ''&gt;'') (replace_all 60 (lit ''&lt;'') (replace_all 38 (lit ''&amp;'') str))"

text \<open>The decimal text a template literal gives an integer.\<close>

fun digits :: "nat \<Rightarrow> jsstr" where
  "digits n = (if n < 10 then [48 + n] else digits (n div 10) @ [48 + n mod 10])"

definition num_str :: "int \<Rightarrow> jsstr" where
  "num_str i = (if i < 0 then lit ''-'' @ digits (nat (- i)) else digits (nat i))"

subsection \<open>Entities, arrays and the page\<close>

text \<open>An element of \<open>data.entities\<close>: the properties \<open>text\<close>, \<open>label\<close>, \<open>start\<close>, \<open>end\<close>.\<close>

record entity =
  e_text :: jsstr
  e_label :: jsstr
  e_start :: int
  e_end :: int

text \<open>What the script last assigned to an element: its \<open>textContent\<close> or its \<open>innerHTML\<close>.\<close>

datatype content = TextContent jsstr | InnerHTML jsstr

text \<open>
  The state the two renderers work on. An array is an object that the caller and
  the renderers share, so arrays live in a store, addressed by reference;
  \<open>highlight\<close> and \<open>entitiesDiv\<close> are the two output elements of the page.
  \<open>inherited\<close> stands for the properties that every object inherits
  (\<open>constructor\<close>, \<open>toString\<close> and the others of \<open>Object.prototype\<close>): for the name of
  one whose value counts as true, the text that a template literal prints for the
  value, which depends on the engine.
\<close>

record page =
  arrays :: "nat \<Rightarrow> entity list"
  highlight :: content
  entitiesDiv :: content
  inherited :: "jsstr \<Rightarrow> jsstr option"

text \<open>The store in which every reference holds an empty array.\<close>

definition no_arrays :: "nat \<Rightarrow> entity list" where
  "no_arrays r = []"

text \<open>
  An environment to run the renderers in: the inherited properties as one engine
  prints them.
\<close>

definition object_prototype :: "jsstr \<Rightarrow> jsstr option" where
  "object_prototype =
     map_of
       [(lit ''constructor'', lit ''function Object() { [native code] }''),
        (lit ''toString'', lit ''function toString() { [native code] }''),
        (lit ''toLocaleString'', lit ''function toLocaleString() { [native code] }''),
        (lit ''valueOf'', lit ''function valueOf() { [native code] }''),
        (lit ''hasOwnProperty'', lit ''function hasOwnProperty() { [native code] }''),
        (lit ''isPrototypeOf'', lit ''function isPrototypeOf() { [native code] }''),
        (lit ''propertyIsEnumerable'', lit ''function propertyIsEnumerable() { [native code] }''),
        (lit ''__defineGetter__'', lit ''function __defineGetter__() { [native code] }''),
        (lit ''__defineSetter__'', lit ''function __defineSetter__() { [native code] }''),
        (lit ''__lookupGetter__'', lit ''function __lookupGetter__() { [native code] }''),
        (lit ''__lookupSetter__'', lit ''function __lookupSetter__() { [native code] }''),
        (lit ''__proto__'', lit ''[object Object]'')]"

subsection \<open>\<open>renderHighlighted\<close>\<close>

definition COLOR_MAP :: "(jsstr \<times> jsstr) list" where
  "COLOR_MAP =
     [(lit ''PERSON'', lit ''#ffe8e6''), (lit ''ORG'', lit ''#e8fff0''),
      (lit ''GPE'', lit ''#fff6e6''), (lit ''LOC'', lit ''#eef2ff''),
      (lit ''DATE'', lit ''#fff0f5''), (lit ''TIME'', lit ''#f0fff5''),
      (lit ''MONEY'', lit ''#fff7e6''), (lit ''PERCENT'', lit ''#f3fff6'')]"

text \<open>
  \<open>COLOR_MAP[label] || '#f2f9ff'\<close>, as the template literal prints it: a property
  of \<open>COLOR_MAP\<close> itself is found first, then an inherited one, and the default is
  taken when there is none or the value counts as false.
\<close>

definition bg_of :: "(jsstr \<Rightarrow> jsstr option) \<Rightarrow> jsstr \<Rightarrow> jsstr" where
  "bg_of inh label =
     (case map_of COLOR_MAP label of
        None \<Rightarrow> (case inh label of None \<Rightarrow> lit ''#f2f9ff'' | Some printed \<Rightarrow> printed)
      | Some c \<Rightarrow> if c = [] then lit ''#f2f9ff'' else c)"

text \<open>The template literal appended for one entity.\<close>

definition mark :: "jsstr \<Rightarrow> jsstr \<Rightarrow> jsstr \<Rightarrow> jsstr" where
  \<open>mark bg span_html label =
     lit ''<mark class="entity" style="background:'' @ bg @ lit ''">'' @ span_html
       @ lit '' <span class="label">['' @ label @ lit '']</span></mark>''\<close>

text \<open>One pass of the \<open>for\<close> loop over the state \<open>(cursor, out)\<close>.\<close>

definition loop_body ::
    "(jsstr \<Rightarrow> jsstr option) \<Rightarrow> jsstr \<Rightarrow> entity \<Rightarrow> int \<times> jsstr \<Rightarrow> int \<times> jsstr" where
  "loop_body inh text e = (\<lambda>(cursor, out).
     let out1 = (if cursor < e_start e
                 then out @ escapeHtml (slice text cursor (e_start e)) else out);
         label = e_label e;
         span_html = escapeHtml (slice text (e_start e) (e_end e));
         bg = bg_of inh label
     in (e_end e, out1 @ mark bg span_html label))"

text \<open>The loop from \<open>cursor = 0\<close>, \<open>out = ''\<close>, and the statement after it.\<close>

definition walk :: "(jsstr \<Rightarrow> jsstr option) \<Rightarrow> jsstr \<Rightarrow> entity list \<Rightarrow> int \<times> jsstr" where
  "walk inh text entities = fold (loop_body inh text) entities (0, [])"

definition finish :: "jsstr \<Rightarrow> int \<times> jsstr \<Rightarrow> jsstr" where
  "finish text = (\<lambda>(cursor, out).
     if cursor < int (length text) then out @ escapeHtml (slice_from text cursor) else out)"

text \<open>The string assigned to \<open>highlight.innerHTML\<close>, for the text \<open>out\<close> of the loop.\<close>

definition in_div :: "jsstr \<Rightarrow> jsstr" where
  \<open>in_div out = lit ''<div style="line-height:1.5;">'' @ out @ lit ''</div>''\<close>

text \<open>
  \<open>renderHighlighted(text, entities)\<close>. The argument is \<open>None\<close> for \<open>null\<close> or
  \<open>undefined\<close> and a reference to an array otherwise. \<open>entities.sort\<close> sorts the
  array in place, so the store is updated; the sort is stable, and its comparator
  orders by \<open>start\<close> only.
\<close>

definition renderHighlighted :: "jsstr \<Rightarrow> nat option \<Rightarrow> page \<Rightarrow> page" where
  \<open>renderHighlighted text entities \<sigma> =
     (case entities of
        None \<Rightarrow> \<sigma>\<lparr>highlight := TextContent text\<rparr>
      | Some r \<Rightarrow>
          if arrays \<sigma> r = [] then \<sigma>\<lparr>highlight := TextContent text\<rparr>
          else
            let sorted = sort_key e_start (arrays \<sigma> r);
                \<sigma>1 = \<sigma>\<lparr>arrays := (arrays \<sigma>)(r := sorted)\<rparr>;
                out = finish text (walk (inherited \<sigma>) text sorted)
            in \<sigma>1\<lparr>highlight := InnerHTML (in_div out)\<rparr>)\<close>

subsection \<open>\<open>renderEntitiesTable\<close>\<close>

definition table_row :: "entity \<Rightarrow> jsstr" where
  "table_row e =
     lit ''<tr><td>'' @ escapeHtml (e_text e) @ lit ''</td><td>'' @ escapeHtml (e_label e)
       @ lit ''</td><td>'' @ num_str (e_start e) @ [8211] @ num_str (e_end e)
       @ lit ''</td></tr>''"

definition table_head :: jsstr where
  "table_head =
     lit ''<table><thead><tr><th>Text</th><th>Label</th><th>Span</th></tr></thead><tbody>''"

definition renderEntitiesTable :: "nat option \<Rightarrow> page \<Rightarrow> page" where
  "renderEntitiesTable entities \<sigma> =
     (case entities of
        None \<Rightarrow> \<sigma>\<lparr>entitiesDiv := InnerHTML (lit ''No entities detected.'')\<rparr>
      | Some r \<Rightarrow>
          if arrays \<sigma> r = [] then \<sigma>\<lparr>entitiesDiv := InnerHTML (lit ''No entities detected.'')\<rparr>
          else
            let html = table_head;
                html1 = fold (\<lambda>e html. html @ table_row e) (arrays \<sigma> r) html;
                html2 = html1 @ lit ''</tbody></table>''
            in \<sigma>\<lparr>entitiesDiv := InnerHTML html2\<rparr>)"

subsection \<open>The click handler, once the response is read\<close>

text \<open>
  \<open>renderHighlighted(inputText.value, ents); renderEntitiesTable(ents);\<close> with
  \<open>ents\<close> the reference of the array read from the response.
\<close>

definition show_analysis :: "jsstr \<Rightarrow> nat \<Rightarrow> page \<Rightarrow> page" where
  "show_analysis text ents \<sigma> =
     renderEntitiesTable (Some ents) (renderHighlighted text (Some ents) \<sigma>)"

subsection \<open>What one pass of the loop appends\<close>

text \<open>
  The two strings a pass appends to \<open>out\<close>, named for the statements below: the
  escaped text between the cursor and the entity, when the cursor lies before the
  entity, and the markup of the entity itself.
\<close>

definition gap_text :: "jsstr \<Rightarrow> int \<Rightarrow> entity \<Rightarrow> jsstr" where
  "gap_text text cursor e =
     (if cursor < e_start e then escapeHtml (slice text cursor (e_start e)) else [])"

definition entity_mark :: "(jsstr \<Rightarrow> jsstr option) \<Rightarrow> jsstr \<Rightarrow> entity \<Rightarrow> jsstr" where
  "entity_mark inh text e =
     mark (bg_of inh (e_label e)) (escapeHtml (slice text (e_start e) (e_end e))) (e_label e)"

section \<open>The highlight algorithm as the specification words it\<close>

text \<open>
  Written from the five steps of the specification, to be compared with
  \<open>renderHighlighted\<close>, and on the list functions of HOL alone: sort the spans by
  \<open>start\<close>; start the cursor at 0; for each span emit the escaped text from the
  cursor to \<open>start\<close>, then the highlighted escaped substring \<open>text[start:end]\<close>
  tagged with the label, and move the cursor to \<open>end\<close>; after the last span emit
  the escaped text from the cursor to the end.
\<close>

text \<open>
  Escaped text: the ampersand and the two angle brackets are written as their
  entities, every other character as it is.
\<close>

definition html_escaped :: "jsstr \<Rightarrow> jsstr" where
  "html_escaped s =
     concat (map (\<lambda>c. if c = 38 then lit ''&amp;'' else if c = 60 then lit ''&lt;''
                       else if c = 62 then lit ''&gt;'' else [c]) s)"

text \<open>
  \<open>text[a:b]\<close>: the characters from offset \<open>a\<close> up to, and without, offset \<open>b\<close>. A
  negative offset counts from the end of the text, and an offset that falls
  outside the text is moved to the nearer end.
\<close>

definition offset_in :: "jsstr \<Rightarrow> int \<Rightarrow> nat" where
  "offset_in s i = (if i < 0 then nat (int (length s) + i) else min (nat i) (length s))"

definition text_range :: "jsstr \<Rightarrow> int \<Rightarrow> int \<Rightarrow> jsstr" where
  "text_range s a b = drop (offset_in s a) (take (offset_in s b) s)"

text \<open>
  The highlighted, escaped substring of a span, tagged with its label. The
  specification leaves the markup open: it is the \<open>mark\<close> element of the page,
  written out.
\<close>

definition spec_mark :: "(jsstr \<Rightarrow> jsstr option) \<Rightarrow> jsstr \<Rightarrow> entity \<Rightarrow> jsstr" where
  \<open>spec_mark inh text sp =
     lit ''<mark class="entity" style="background:'' @ bg_of inh (e_label sp) @ lit ''">''
       @ html_escaped (text_range text (e_start sp) (e_end sp))
       @ lit '' <span class="label">['' @ e_label sp @ lit '']</span></mark>''\<close>

fun spec_emit :: "(jsstr \<Rightarrow> jsstr option) \<Rightarrow> jsstr \<Rightarrow> int \<Rightarrow> entity list \<Rightarrow> jsstr" where
  "spec_emit inh text cursor [] = html_escaped (text_range text cursor (int (length text)))"
| "spec_emit inh text cursor (sp # spans) =
     html_escaped (text_range text cursor (e_start sp)) @ spec_mark inh text sp
       @ spec_emit inh text (e_end sp) spans"

definition spec_render :: "(jsstr \<Rightarrow> jsstr option) \<Rightarrow> jsstr \<Rightarrow> entity list \<Rightarrow> jsstr" where
  "spec_render inh text spans = spec_emit inh text 0 (sort_key e_start spans)"

section \<open>Properties of the handler\<close>

lemma strip_empty_iff: "strip s = [] \<longleftrightarrow> list_all py_isspace s"
proof
  assume "strip s = []"
  then have all_tail: "\<forall>x \<in> set (dropWhile py_isspace s). py_isspace x"
    by (simp add: strip_def)
  have "dropWhile py_isspace s = []"
  proof (rule ccontr)
    assume ne: "dropWhile py_isspace s \<noteq> []"
    then have "\<not> py_isspace (hd (dropWhile py_isspace s))"
      by (rule hd_dropWhile)
    moreover have "hd (dropWhile py_isspace s) \<in> set (dropWhile py_isspace s)"
      using ne by simp
    ultimately show False using all_tail by blast
  qed
  then show "list_all py_isspace s"
    by (simp add: list_all_iff)
next
  assume "list_all py_isspace s"
  then have none_left: "dropWhile py_isspace s = []"
    by (simp add: list_all_iff)
  show "strip s = []"
    by (simp only: strip_def none_left rev.simps dropWhile.simps)
qed

lemma api_ner_object:
  "api_ner nlp (Some (JObj kvs)) =
     (case map_of kvs (lit ''text'') of
        None \<Rightarrow> Inr no_text_provided
      | Some (JStr s) \<Rightarrow>
          if list_all py_isspace s then Inr no_text_provided
          else (case nlp s of
                  Inl err \<Rightarrow> Inl err
                | Inr ents \<Rightarrow>
                    Inr (Response 200 (JObj [(lit ''entities'', JArr (map ent_json ents))])))
      | Some _ \<Rightarrow> Inr no_text_provided)"
proof (cases kvs)
  case Nil
  then show ?thesis
    by (simp add: api_ner_def or_empty_dict_def strip_def)
next
  case (Cons kv rest)
  then have data: "or_empty_dict (Some (JObj kvs)) = JObj kvs"
    by (simp add: or_empty_dict_def)
  show ?thesis
    unfolding api_ner_def data Let_def
    by (simp add: strip_empty_iff split: option.splits json.splits)
qed

text \<open>
  C1. A request whose JSON object has no \<open>text\<close> field, or whose \<open>text\<close> is not a
  string, or is a string of white space only (the empty string included), is
  answered with status 400 and the body \<open>{"error": "No text provided"}\<close>; the status
  is never 200.
\<close>

theorem api_ner_bad_text_400:
  assumes "map_of kvs (lit ''text'') = None
           \<or> (\<exists>v. map_of kvs (lit ''text'') = Some v \<and> (\<forall>s. v \<noteq> JStr s))
           \<or> (\<exists>s. map_of kvs (lit ''text'') = Some (JStr s) \<and> list_all py_isspace s)"
  shows "api_ner nlp (Some (JObj kvs)) =
           Inr (Response 400 (JObj [(lit ''error'', JStr (lit ''No text provided''))]))
         \<and> http_status (api_ner nlp (Some (JObj kvs))) \<noteq> 200"
proof -
  have "api_ner nlp (Some (JObj kvs)) = Inr no_text_provided"
    using assms by (auto simp: api_ner_object split: json.splits)
  then show ?thesis
    by (simp add: no_text_provided_def http_status_def)
qed

theorem api_ner_bad_text_400_witness:
  "(map_of [(lit ''other'', JInt 1)] (lit ''text'') = None
    \<and> api_ner (\<lambda>t. Inr []) (Some (JObj [(lit ''other'', JInt 1)])) =
        Inr (Response 400 (JObj [(lit ''error'', JStr (lit ''No text provided''))])))
   \<and> (map_of [(lit ''text'', JInt 7)] (lit ''text'') = Some (JInt 7)
    \<and> api_ner (\<lambda>t. Inr []) (Some (JObj [(lit ''text'', JInt 7)])) =
        Inr (Response 400 (JObj [(lit ''error'', JStr (lit ''No text provided''))])))
   \<and> (list_all py_isspace (lit '' '')
    \<and> api_ner (\<lambda>t. Inr []) (Some (JObj [(lit ''text'', JStr (lit '' ''))])) =
        Inr (Response 400 (JObj [(lit ''error'', JStr (lit ''No text provided''))])))"
  using api_ner_bad_text_400 [of "[(lit ''other'', JInt 1)]" "\<lambda>t. Inr []"]
        api_ner_bad_text_400 [of "[(lit ''text'', JInt 7)]" "\<lambda>t. Inr []"]
        api_ner_bad_text_400 [of "[(lit ''text'', JStr (lit '' ''))]" "\<lambda>t. Inr []"]
  by (simp add: lit_def py_isspace_def)

text \<open>
  C2. A request whose \<open>text\<close> is a string with at least one character that is not
  white space is passed, unchanged, to the extraction service; when the service
  returns its entities, the answer has status 200 and its body is an object whose
  \<open>entities\<close> array holds one object \<open>{text, label, start, end}\<close> per entity, in the
  order of the service.
\<close>

theorem api_ner_entities_200:
  assumes "map_of kvs (lit ''text'') = Some (JStr text)"
      and "\<exists>c \<in> set text. \<not> py_isspace c"
      and "nlp text = Inr ents"
  shows "api_ner nlp (Some (JObj kvs)) =
           Inr (Response 200 (JObj [(lit ''entities'',
             JArr (map (\<lambda>e. JObj [(lit ''text'', JStr (ent_text e)),
                                   (lit ''label'', JStr (ent_label e)),
                                   (lit ''start'', JInt (ent_start_char e)),
                                   (lit ''end'', JInt (ent_end_char e))]) ents))]))"
proof -
  have "\<not> list_all py_isspace text"
    using assms(2) by (simp add: list_all_iff)
  then have "api_ner nlp (Some (JObj kvs)) =
      Inr (Response 200 (JObj [(lit ''entities'', JArr (map ent_json ents))]))"
    using assms(1,3) by (simp add: api_ner_object)
  moreover have "map ent_json ents =
      map (\<lambda>e. JObj [(lit ''text'', JStr (ent_text e)),
                      (lit ''label'', JStr (ent_label e)),
                      (lit ''start'', JInt (ent_start_char e)),
                      (lit ''end'', JInt (ent_end_char e))]) ents"
    by (simp add: ent_json_def)
  ultimately show ?thesis by simp
qed

theorem api_ner_entities_200_witness:
  "api_ner (\<lambda>t. Inr [\<lparr>ent_text = lit ''Rome'', ent_label = lit ''GPE'',
                        ent_start_char = 3, ent_end_char = 7\<rparr>,
                      \<lparr>ent_text = lit ''Al'', ent_label = lit ''PERSON'',
                        ent_start_char = 0, ent_end_char = 2\<rparr>])
           (Some (JObj [(lit ''text'', JStr (lit ''Al Rome''))])) =
     Inr (Response 200 (JObj [(lit ''entities'',
       JArr [JObj [(lit ''text'', JStr (lit ''Rome'')), (lit ''label'', JStr (lit ''GPE'')),
                   (lit ''start'', JInt 3), (lit ''end'', JInt 7)],
             JObj [(lit ''text'', JStr (lit ''Al'')), (lit ''label'', JStr (lit ''PERSON'')),
                   (lit ''start'', JInt 0), (lit ''end'', JInt 2)]])]))"
  using api_ner_entities_200
    [of "[(lit ''text'', JStr (lit ''Al Rome''))]" "lit ''Al Rome''"
        "\<lambda>t. Inr [\<lparr>ent_text = lit ''Rome'', ent_label = lit ''GPE'',
                      ent_start_char = 3, ent_end_char = 7\<rparr>,
                    \<lparr>ent_text = lit ''Al'', ent_label = lit ''PERSON'',
                      ent_start_char = 0, ent_end_char = 2\<rparr>]"
        "[\<lparr>ent_text = lit ''Rome'', ent_label = lit ''GPE'',
            ent_start_char = 3, ent_end_char = 7\<rparr>,
          \<lparr>ent_text = lit ''Al'', ent_label = lit ''PERSON'',
            ent_start_char = 0, ent_end_char = 2\<rparr>]"]
  by (simp add: lit_def py_isspace_def)

text \<open>
  C3. When the extraction service keeps its contract on the text it is given
  (every entity has \<open>0 \<le> start < end \<le> length text\<close>), every element of the
  \<open>entities\<close> array of a 200 answer carries offsets \<open>start\<close> and \<open>end\<close> with
  \<open>0 \<le> start < end \<le> length text\<close>, where \<open>text\<close> is the string of the request
  as it was sent.
\<close>

theorem api_ner_offsets_in_text:
  assumes "map_of kvs (lit ''text'') = Some (JStr text)"
      and "nlp text = Inr ents"
      and "list_all (\<lambda>e. 0 \<le> ent_start_char e \<and> ent_start_char e < ent_end_char e
                         \<and> ent_end_char e \<le> int (length text)) ents"
      and "api_ner nlp (Some (JObj kvs)) = Inr (Response 200 b)"
  shows "\<exists>js. b = JObj [(lit ''entities'', JArr js)]
           \<and> list_all (\<lambda>j. \<exists>t l s e.
                 j = JObj [(lit ''text'', JStr t), (lit ''label'', JStr l),
                           (lit ''start'', JInt s), (lit ''end'', JInt e)]
                 \<and> 0 \<le> s \<and> s < e \<and> e \<le> int (length text)) js"
proof -
  have b: "b = JObj [(lit ''entities'', JArr (map ent_json ents))]"
    using assms(1,2,4)
    by (simp add: api_ner_object no_text_provided_def split: if_splits)
  have "list_all (\<lambda>j. \<exists>t l s e.
          j = JObj [(lit ''text'', JStr t), (lit ''label'', JStr l),
                    (lit ''start'', JInt s), (lit ''end'', JInt e)]
          \<and> 0 \<le> s \<and> s < e \<and> e \<le> int (length text)) (map ent_json ents)"
    using assms(3) by (auto simp: list_all_iff ent_json_def)
  with b show ?thesis by blast
qed

theorem api_ner_offsets_in_text_witness:
  "\<exists>js. JObj [(lit ''entities'', JArr [ent_json \<lparr>ent_text = lit ''Al'', ent_label = lit ''PERSON'',
                                                     ent_start_char = 0, ent_end_char = 2\<rparr>])]
          = JObj [(lit ''entities'', JArr js)]
         \<and> list_all (\<lambda>j. \<exists>t l s e.
               j = JObj [(lit ''text'', JStr t), (lit ''label'', JStr l),
                         (lit ''start'', JInt s), (lit ''end'', JInt e)]
               \<and> 0 \<le> s \<and> s < e \<and> e \<le> int (length (lit ''Al Rome''))) js"
proof -
  let ?e = "\<lparr>ent_text = lit ''Al'', ent_label = lit ''PERSON'',
              ent_start_char = 0, ent_end_char = 2\<rparr>"
  let ?kvs = "[(lit ''text'', JStr (lit ''Al Rome''))]"
  have req: "map_of ?kvs (lit ''text'') = Some (JStr (lit ''Al Rome''))"
    by simp
  have srv: "(\<lambda>t. Inr [?e] :: pyerror + ent list) (lit ''Al Rome'') = Inr [?e]"
    by simp
  have contract: "list_all (\<lambda>e. 0 \<le> ent_start_char e \<and> ent_start_char e < ent_end_char e
                     \<and> ent_end_char e \<le> int (length (lit ''Al Rome''))) [?e]"
    by (simp add: lit_def)
  have ok: "api_ner (\<lambda>t. Inr [?e]) (Some (JObj ?kvs)) =
              Inr (Response 200 (JObj [(lit ''entities'', JArr [ent_json ?e])]))"
    by (simp add: api_ner_object lit_def py_isspace_def)
  show ?thesis
    by (rule api_ner_offsets_in_text [OF req srv contract ok])
qed

text \<open>
  A request without a usable body, or whose body parses to a value that Python
  counts as false (\<open>null\<close>, \<open>false\<close>, \<open>0\<close>, \<open>""\<close>, \<open>[]\<close>, \<open>{}\<close>), is answered like one
  without \<open>text\<close>.
\<close>

lemma api_ner_no_body_400:
  assumes "request_json = None \<or> (\<exists>v. request_json = Some v \<and> \<not> truthy v)"
  shows "api_ner nlp request_json = Inr no_text_provided"
  using assms by (auto simp: api_ner_def or_empty_dict_def strip_def)

text \<open>
  C9. A request whose body parses to a non-empty JSON array is not treated as a
  request without \<open>text\<close>: \<open>data.get\<close> raises, and the client receives status 500.
\<close>

theorem api_ner_array_body_500:
  "api_ner nlp (Some (JArr [JInt 1])) = Inl AttributeError
   \<and> http_status (api_ner nlp (Some (JArr [JInt 1]))) = 500"
  by (simp add: api_ner_def or_empty_dict_def http_status_def)

section \<open>Properties of the page script\<close>

text \<open>The definitions unfolded to evaluate a rendering on a given input.\<close>

lemmas eval_defs = lit_def in_div_def spec_render_def spec_mark_def html_escaped_def
  text_range_def offset_in_def entity_mark_def mark_def bg_of_def COLOR_MAP_def
  object_prototype_def escapeHtml_def replace_all_def slice_def slice_from_def Let_def

lemma loop_body_eq:
  "loop_body inh text e (cursor, out) =
     (e_end e, out @ gap_text text cursor e @ entity_mark inh text e)"
  by (simp add: loop_body_def gap_text_def entity_mark_def Let_def)

lemma escapeHtml_Nil: "escapeHtml [] = []"
  by (simp add: escapeHtml_def replace_all_def)

lemma escapeHtml_chars:
  "escapeHtml str =
     concat (map (\<lambda>c. if c = 38 then lit ''&amp;'' else if c = 60 then lit ''&lt;''
                       else if c = 62 then lit ''&gt;'' else [c]) str)"
proof (induction str)
  case Nil
  show ?case by (simp add: escapeHtml_Nil)
next
  case (Cons x xs)
  have "escapeHtml (x # xs) =
          (if x = 38 then lit ''&amp;'' else if x = 60 then lit ''&lt;''
           else if x = 62 then lit ''&gt;'' else [x]) @ escapeHtml xs"
    by (simp add: escapeHtml_def replace_all_def lit_def)
  then show ?case using Cons by simp
qed

lemma escapeHtml_escaped: "escapeHtml str = html_escaped str"
  unfolding html_escaped_def by (rule escapeHtml_chars)

lemma offset_in_int:
  "int (offset_in s i) =
     (if i < 0 then max (int (length s) + i) 0 else min i (int (length s)))"
proof (cases "i < 0")
  case True
  then show ?thesis by (simp add: offset_in_def max_def)
next
  case False
  then have "int (min (nat i) (length s)) = min i (int (length s))"
    by linarith
  with False show ?thesis by (simp add: offset_in_def)
qed

lemma slice_text_range: "slice s a b = text_range s a b"
proof -
  let ?lo = "if a < 0 then max (int (length s) + a) 0 else min a (int (length s))"
  let ?hi = "if b < 0 then max (int (length s) + b) 0 else min b (int (length s))"
  have lo: "nat ?lo = offset_in s a"
    using offset_in_int [of s a] by simp
  have hi: "nat ?hi = offset_in s b"
    using offset_in_int [of s b] by simp
  have "nat (?hi - ?lo) = offset_in s b - offset_in s a"
    using offset_in_int [of s a] offset_in_int [of s b] by linarith
  then have "slice s a b = take (offset_in s b - offset_in s a) (drop (offset_in s a) s)"
    unfolding slice_def Let_def lo by simp
  then show ?thesis
    by (simp add: text_range_def drop_take)
qed

lemma slice_from_text_range: "slice_from s a = text_range s a (int (length s))"
  by (simp add: slice_from_def slice_text_range)

lemma entity_mark_spec: "entity_mark inh text e = spec_mark inh text e"
  by (simp add: entity_mark_def spec_mark_def mark_def escapeHtml_escaped slice_text_range)

lemma html_escaped_Nil: "html_escaped [] = []"
  by (simp add: html_escaped_def)


lemma text_range_past_end: "int (length s) \<le> a \<Longrightarrow> text_range s a (int (length s)) = []"
  by (simp add: text_range_def offset_in_def)

lemma gap_text_spec:
  "gap_text text cursor e =
     (if cursor < e_start e then html_escaped (text_range text cursor (e_start e)) else [])"
  by (simp add: gap_text_def escapeHtml_escaped slice_text_range)

lemma finish_eq:
  "finish text (cursor, out) = out @ html_escaped (text_range text cursor (int (length text)))"
  by (simp add: finish_def slice_from_text_range escapeHtml_escaped text_range_past_end
        html_escaped_Nil)

lemma finish_of:
  "finish text p = snd p @ html_escaped (text_range text (fst p) (int (length text)))"
  by (cases p) (simp add: finish_eq)

lemma fold_loop_out:
  "fold (loop_body inh text) es (cursor, out) =
     (fst (fold (loop_body inh text) es (cursor, [])),
      out @ snd (fold (loop_body inh text) es (cursor, [])))"
proof (induction es arbitrary: cursor out)
  case Nil
  show ?case by simp
next
  case (Cons e es)
  let ?piece = "gap_text text cursor e @ entity_mark inh text e"
  let ?rest = "fold (loop_body inh text) es (e_end e, [])"
  have a: "fold (loop_body inh text) (e # es) (cursor, out) =
             (fst ?rest, (out @ ?piece) @ snd ?rest)"
    using Cons.IH [of "e_end e" "out @ ?piece"] by (simp add: loop_body_eq)
  have b: "fold (loop_body inh text) (e # es) (cursor, []) = (fst ?rest, ?piece @ snd ?rest)"
    using Cons.IH [of "e_end e" "?piece"] by (simp add: loop_body_eq)
  show ?case
    unfolding a b by simp
qed



lemma sort_key_Nil_iff: "sort_key f xs = [] \<longleftrightarrow> xs = []"
  by (metis length_0_conv length_sort)

lemma renderHighlighted_shows:
  "highlight (renderHighlighted text (Some r) \<sigma>) =
     (if sort_key e_start (arrays \<sigma> r) = [] then TextContent text
      else InnerHTML (in_div (finish text
             (walk (inherited \<sigma>) text (sort_key e_start (arrays \<sigma> r))))))"
  by (simp add: renderHighlighted_def Let_def sort_key_Nil_iff)

lemma renderHighlighted_sorts:
  "arrays (renderHighlighted text (Some r) \<sigma>) = (arrays \<sigma>)(r := sort_key e_start (arrays \<sigma> r))"
  by (auto simp: renderHighlighted_def Let_def)

lemma sort_key_of_one_key:
  "sort_key f (filter (\<lambda>x. f x = k) xs) = filter (\<lambda>x. f x = k) xs"
proof (rule sort_key_id_if_sorted)
  have "map f (filter (\<lambda>x. f x = k) xs) = replicate (length (filter (\<lambda>x. f x = k) xs)) k"
    by (induction xs) simp_all
  then show "sorted (map f (filter (\<lambda>x. f x = k) xs))"
    by (simp add: sorted_replicate)
qed

lemma sort_key_same_ties:
  assumes "mset ys = mset xs"
      and "\<forall>k. filter (\<lambda>x. f x = k) ys = filter (\<lambda>x. f x = k) xs"
  shows "sort_key f ys = sort_key f xs"
proof (rule properties_for_sort_key)
  show "mset (sort_key f xs) = mset ys"
    using assms(1) by simp
  show "sorted (map f (sort_key f xs))"
    by simp
  fix k
  assume "k \<in> set (sort_key f xs)"
  have same: "(\<lambda>x. f k = f x) = (\<lambda>x. f x = f k)"
    by auto
  have "filter (\<lambda>x. f x = f k) (sort_key f xs) = sort_key f (filter (\<lambda>x. f x = f k) xs)"
    by (rule filter_sort)
  also have "\<dots> = filter (\<lambda>x. f x = f k) xs"
    by (rule sort_key_of_one_key)
  also have "\<dots> = filter (\<lambda>x. f x = f k) ys"
    using assms(2) by simp
  finally show "filter (\<lambda>x. f k = f x) (sort_key f xs) = filter (\<lambda>x. f k = f x) ys"
    unfolding same .
qed

lemma fold_rows: "fold (\<lambda>e html. html @ table_row e) es h = h @ concat (map table_row es)"
  by (induction es arbitrary: h) simp_all

lemma finish_fold_contains:
  assumes "e \<in> set es"
  shows "\<exists>pre post. finish text (fold (loop_body inh text) es (cursor, out)) =
           out @ pre @ entity_mark inh text e @ post"
proof -
  obtain xs ys where es: "es = xs @ e # ys"
    using assms by (auto dest: split_list)
  obtain c p where before: "fold (loop_body inh text) xs (cursor, out) = (c, out @ p)"
    using fold_loop_out [of inh "text" xs cursor out] by simp
  obtain c' q where after: "fold (loop_body inh text) ys (e_end e, []) = (c', q)"
    by (cases "fold (loop_body inh text) ys (e_end e, [])")
  have "fold (loop_body inh text) es (cursor, out) =
          fold (loop_body inh text) ys
            (e_end e, out @ p @ gap_text text c e @ entity_mark inh text e)"
    by (simp add: es before loop_body_eq)
  also have "\<dots> = (c', (out @ p @ gap_text text c e @ entity_mark inh text e) @ q)"
    using fold_loop_out [of inh "text" ys "e_end e"
            "out @ p @ gap_text text c e @ entity_mark inh text e"]
    by (simp add: after)
  finally have "finish text (fold (loop_body inh text) es (cursor, out)) =
      out @ (p @ gap_text text c e) @ entity_mark inh text e
          @ (q @ html_escaped (text_range text c' (int (length text))))"
    by (simp add: finish_eq)
  then show ?thesis by blast
qed

text \<open>
  The background of a label: a colour of \<open>COLOR_MAP\<close>, the text of an inherited
  property that the label happens to name, or the default.
\<close>

lemma constructor_background:
  \<open>bg_of object_prototype (lit ''constructor'') = lit ''function Object() { [native code] }''
   \<and> bg_of object_prototype (lit ''GPE'') = lit ''#fff6e6''
   \<and> bg_of object_prototype (lit ''X'') = lit ''#f2f9ff''\<close>
  by (simp add: eval_defs)




text \<open>
  C7. With an empty entity list, \<open>renderHighlighted\<close> changes nothing but the
  content of the highlight element, which becomes the text itself, assigned as
  \<open>textContent\<close>: the characters of the original text, shown as they are, and no
  markup.
\<close>

theorem renderHighlighted_empty:
  assumes "arrays \<sigma> r = []"
  shows "renderHighlighted text (Some r) \<sigma> = \<sigma>\<lparr>highlight := TextContent text\<rparr>"
  using assms by (simp add: renderHighlighted_def)

theorem renderHighlighted_empty_witness:
  "renderHighlighted (lit ''a<b'') (Some 0)
      \<lparr>arrays = no_arrays, highlight = InnerHTML (lit ''old''), entitiesDiv = TextContent [],
       inherited = object_prototype\<rparr> =
    \<lparr>arrays = no_arrays, highlight = TextContent (lit ''a<b''), entitiesDiv = TextContent [],
       inherited = object_prototype\<rparr>"
  using renderHighlighted_empty
    [of "\<lparr>arrays = no_arrays, highlight = InnerHTML (lit ''old''), entitiesDiv = TextContent [],
          inherited = object_prototype\<rparr>"
        0 "lit ''a<b''"]
  by (simp add: no_arrays_def)

text \<open>
  C6, as amended. Two arrays that hold the same spans, with the spans of equal
  \<open>start\<close> in the same order in both, are rendered alike on the same page,
  whatever the order of the rest; and an array is rendered as the array sorted,
  stably, by \<open>start\<close> is.
\<close>

theorem renderHighlighted_stable_order:
  assumes "mset (arrays \<sigma>' r') = mset (arrays \<sigma> r)"
      and "\<forall>k. filter (\<lambda>e. e_start e = k) (arrays \<sigma>' r') =
               filter (\<lambda>e. e_start e = k) (arrays \<sigma> r)"
      and "inherited \<sigma>' = inherited \<sigma>"
  shows "highlight (renderHighlighted text (Some r') \<sigma>') =
           highlight (renderHighlighted text (Some r) \<sigma>)
         \<and> highlight (renderHighlighted text (Some r)
              (\<sigma>\<lparr>arrays := (arrays \<sigma>)(r := sort_key e_start (arrays \<sigma> r))\<rparr>)) =
           highlight (renderHighlighted text (Some r) \<sigma>)"
proof
  have "sort_key e_start (arrays \<sigma>' r') = sort_key e_start (arrays \<sigma> r)"
    using assms(1,2) by (rule sort_key_same_ties)
  then show "highlight (renderHighlighted text (Some r') \<sigma>') =
               highlight (renderHighlighted text (Some r) \<sigma>)"
    using assms(3) by (simp add: renderHighlighted_shows)
next
  have "sort_key e_start (sort_key e_start (arrays \<sigma> r)) = sort_key e_start (arrays \<sigma> r)"
    by (simp add: sort_key_id_if_sorted)
  then show "highlight (renderHighlighted text (Some r)
              (\<sigma>\<lparr>arrays := (arrays \<sigma>)(r := sort_key e_start (arrays \<sigma> r))\<rparr>)) =
           highlight (renderHighlighted text (Some r) \<sigma>)"
    by (simp add: renderHighlighted_shows)
qed

theorem renderHighlighted_stable_order_witness:
  \<open>highlight (renderHighlighted (lit ''ab <Rome>'') (Some 1)
      \<lparr>arrays = no_arrays(1 :=
         [\<lparr>e_text = lit ''a'', e_label = lit ''X'', e_start = 0, e_end = 1\<rparr>,
          \<lparr>e_text = lit ''ab'', e_label = lit ''Y'', e_start = 0, e_end = 2\<rparr>,
          \<lparr>e_text = lit ''Rome'', e_label = lit ''GPE'', e_start = 4, e_end = 8\<rparr>]),
       highlight = TextContent [], entitiesDiv = TextContent [],
       inherited = object_prototype\<rparr>) =
   highlight (renderHighlighted (lit ''ab <Rome>'') (Some 0)
      \<lparr>arrays = no_arrays(0 :=
         [\<lparr>e_text = lit ''Rome'', e_label = lit ''GPE'', e_start = 4, e_end = 8\<rparr>,
          \<lparr>e_text = lit ''a'', e_label = lit ''X'', e_start = 0, e_end = 1\<rparr>,
          \<lparr>e_text = lit ''ab'', e_label = lit ''Y'', e_start = 0, e_end = 2\<rparr>]),
       highlight = TextContent [], entitiesDiv = TextContent [],
       inherited = object_prototype\<rparr>)
   \<and> highlight (renderHighlighted (lit ''ab <Rome>'') (Some 0)
      \<lparr>arrays = no_arrays(0 :=
         [\<lparr>e_text = lit ''Rome'', e_label = lit ''GPE'', e_start = 4, e_end = 8\<rparr>,
          \<lparr>e_text = lit ''a'', e_label = lit ''X'', e_start = 0, e_end = 1\<rparr>,
          \<lparr>e_text = lit ''ab'', e_label = lit ''Y'', e_start = 0, e_end = 2\<rparr>]),
       highlight = TextContent [], entitiesDiv = TextContent [],
       inherited = object_prototype\<rparr>) =
     InnerHTML (lit ''<div style="line-height:1.5;"><mark class="entity" style="background:#f2f9ff">a <span class="label">[X]</span></mark><mark class="entity" style="background:#f2f9ff">ab <span class="label">[Y]</span></mark> &lt;<mark class="entity" style="background:#fff6e6">Rome <span class="label">[GPE]</span></mark>&gt;</div>'')\<close>
proof -
  let ?a = "\<lparr>e_text = lit ''a'', e_label = lit ''X'', e_start = 0, e_end = 1\<rparr>"
  let ?b = "\<lparr>e_text = lit ''ab'', e_label = lit ''Y'', e_start = 0, e_end = 2\<rparr>"
  let ?r = "\<lparr>e_text = lit ''Rome'', e_label = lit ''GPE'', e_start = 4, e_end = 8\<rparr>"
  let ?\<sigma>' = "\<lparr>arrays = no_arrays(1 := [?a, ?b, ?r]),
       highlight = TextContent [], entitiesDiv = TextContent [],
       inherited = object_prototype\<rparr>"
  let ?\<sigma> = "\<lparr>arrays = no_arrays(0 := [?r, ?a, ?b]),
       highlight = TextContent [], entitiesDiv = TextContent [],
       inherited = object_prototype\<rparr>"
  have same_spans: "mset (arrays ?\<sigma>' 1) = mset (arrays ?\<sigma> 0)"
    by simp
  have same_ties: "\<forall>k. filter (\<lambda>e. e_start e = k) (arrays ?\<sigma>' 1) =
                       filter (\<lambda>e. e_start e = k) (arrays ?\<sigma> 0)"
    by simp
  have same_env: "inherited ?\<sigma>' = inherited ?\<sigma>"
    by simp
  have shown: \<open>highlight (renderHighlighted (lit ''ab <Rome>'') (Some 0) ?\<sigma>) =
     InnerHTML (lit ''<div style="line-height:1.5;"><mark class="entity" style="background:#f2f9ff">a <span class="label">[X]</span></mark><mark class="entity" style="background:#f2f9ff">ab <span class="label">[Y]</span></mark> &lt;<mark class="entity" style="background:#fff6e6">Rome <span class="label">[GPE]</span></mark>&gt;</div>'')\<close>
    by (simp add: renderHighlighted_def walk_def finish_def loop_body_def eval_defs)
  show ?thesis
    using renderHighlighted_stable_order [OF same_spans same_ties same_env, of "lit ''ab <Rome>''"]
          shown
    by (simp only: simp_thms)
qed

text \<open>
  Two spans of equal \<open>start\<close>, given in the two orders: both lists are sorted by
  \<open>start\<close> and hold the same spans, and they are rendered differently.
\<close>

theorem renderHighlighted_any_order_counterexample:
  "mset [\<lparr>e_text = lit ''ab'', e_label = lit ''Y'', e_start = 0, e_end = 2\<rparr>,
         \<lparr>e_text = lit ''a'', e_label = lit ''X'', e_start = 0, e_end = 1\<rparr>] =
   mset [\<lparr>e_text = lit ''a'', e_label = lit ''X'', e_start = 0, e_end = 1\<rparr>,
         \<lparr>e_text = lit ''ab'', e_label = lit ''Y'', e_start = 0, e_end = 2\<rparr>]
   \<and> sorted (map e_start
         [\<lparr>e_text = lit ''a'', e_label = lit ''X'', e_start = 0, e_end = 1\<rparr>,
          \<lparr>e_text = lit ''ab'', e_label = lit ''Y'', e_start = 0, e_end = 2\<rparr>])
   \<and> highlight (renderHighlighted (lit ''ab'') (Some 0)
        \<lparr>arrays = no_arrays(0 :=
           [\<lparr>e_text = lit ''ab'', e_label = lit ''Y'', e_start = 0, e_end = 2\<rparr>,
            \<lparr>e_text = lit ''a'', e_label = lit ''X'', e_start = 0, e_end = 1\<rparr>]),
         highlight = TextContent [], entitiesDiv = TextContent [],
         inherited = object_prototype\<rparr>) \<noteq>
       highlight (renderHighlighted (lit ''ab'') (Some 0)
        \<lparr>arrays = no_arrays(0 :=
           [\<lparr>e_text = lit ''a'', e_label = lit ''X'', e_start = 0, e_end = 1\<rparr>,
            \<lparr>e_text = lit ''ab'', e_label = lit ''Y'', e_start = 0, e_end = 2\<rparr>]),
         highlight = TextContent [], entitiesDiv = TextContent [],
         inherited = object_prototype\<rparr>)"
  by (simp add: renderHighlighted_def walk_def finish_def loop_body_def eval_defs)

text \<open>
  C8. When, in the sorted list, span \<open>i\<close> ends after span \<open>i + 1\<close> starts, the
  renderer goes on all the same. After the pass over span \<open>i + 1\<close> the cursor is
  the \<open>end\<close> of that span, and the output is the output before span \<open>i\<close>, the
  escaped gap before span \<open>i\<close> if there is one, the whole mark of span \<open>i\<close> and,
  at once, the whole mark of span \<open>i + 1\<close>, with all of its escaped substring
  \<open>text[start:end]\<close>. What is shown is that output, followed by what the
  remaining passes and the end of the text add from that cursor.
\<close>

theorem renderHighlighted_overlap:
  assumes "sorted_es = sort_key e_start (arrays \<sigma> r)"
      and "Suc i < length sorted_es"
      and "e_start (sorted_es ! Suc i) < e_end (sorted_es ! i)"
  shows \<open>walk (inherited \<sigma>) text (take (Suc (Suc i)) sorted_es) =
           (e_end (sorted_es ! Suc i),
            snd (walk (inherited \<sigma>) text (take i sorted_es))
            @ (if fst (walk (inherited \<sigma>) text (take i sorted_es)) < e_start (sorted_es ! i)
               then html_escaped (text_range text
                      (fst (walk (inherited \<sigma>) text (take i sorted_es))) (e_start (sorted_es ! i)))
               else [])
            @ spec_mark (inherited \<sigma>) text (sorted_es ! i)
            @ spec_mark (inherited \<sigma>) text (sorted_es ! Suc i))
         \<and> highlight (renderHighlighted text (Some r) \<sigma>) =
           InnerHTML (lit ''<div style="line-height:1.5;">''
             @ snd (walk (inherited \<sigma>) text (take (Suc (Suc i)) sorted_es))
             @ finish text (fold (loop_body (inherited \<sigma>) text) (drop (Suc (Suc i)) sorted_es)
                              (e_end (sorted_es ! Suc i), []))
             @ lit ''</div>'')\<close>
proof -
  let ?inh = "inherited \<sigma>"
  let ?a = "sorted_es ! i" and ?b = "sorted_es ! Suc i"
  let ?rest = "drop (Suc (Suc i)) sorted_es"
  have upto: "take (Suc (Suc i)) sorted_es = take i sorted_es @ [?a, ?b]"
    using assms(2) by (simp add: take_Suc_conv_app_nth)
  obtain c p where before: "fold (loop_body ?inh text) (take i sorted_es) (0, []) = (c, p)"
    by (cases "fold (loop_body ?inh text) (take i sorted_es) (0, [])")
  have no_gap: "gap_text text (e_end ?a) ?b = []"
    using assms(3) by (simp add: gap_text_def)
  have walked: "walk ?inh text (take (Suc (Suc i)) sorted_es) =
                  (e_end ?b, p @ gap_text text c ?a @ spec_mark ?inh text ?a
                               @ spec_mark ?inh text ?b)"
    by (simp add: walk_def upto before loop_body_eq no_gap entity_mark_spec)
  have first: "walk ?inh text (take (Suc (Suc i)) sorted_es) =
           (e_end ?b,
            snd (walk ?inh text (take i sorted_es))
            @ (if fst (walk ?inh text (take i sorted_es)) < e_start ?a
               then html_escaped (text_range text
                      (fst (walk ?inh text (take i sorted_es))) (e_start ?a))
               else [])
            @ spec_mark ?inh text ?a @ spec_mark ?inh text ?b)"
    unfolding walked by (simp add: walk_def before gap_text_spec)
  have "sorted_es = take (Suc (Suc i)) sorted_es @ ?rest"
    by simp
  then have "walk ?inh text sorted_es =
               fold (loop_body ?inh text) ?rest (walk ?inh text (take (Suc (Suc i)) sorted_es))"
    unfolding walk_def by (metis fold_append comp_apply)
  also have "\<dots> = (fst (fold (loop_body ?inh text) ?rest (e_end ?b, [])),
                   snd (walk ?inh text (take (Suc (Suc i)) sorted_es))
                   @ snd (fold (loop_body ?inh text) ?rest (e_end ?b, [])))"
    unfolding walked
    using fold_loop_out [of ?inh "text" ?rest "e_end ?b"
            "p @ gap_text text c ?a @ spec_mark ?inh text ?a @ spec_mark ?inh text ?b"]
    by simp
  finally have "finish text (walk ?inh text sorted_es) =
      snd (walk ?inh text (take (Suc (Suc i)) sorted_es))
      @ finish text (fold (loop_body ?inh text) ?rest (e_end ?b, []))"
    by (simp add: finish_of)
  moreover have "sorted_es \<noteq> []"
    using assms(2) by auto
  ultimately have second: \<open>highlight (renderHighlighted text (Some r) \<sigma>) =
      InnerHTML (lit ''<div style="line-height:1.5;">''
        @ snd (walk ?inh text (take (Suc (Suc i)) sorted_es))
        @ finish text (fold (loop_body ?inh text) ?rest (e_end ?b, []))
        @ lit ''</div>'')\<close>
    using assms(1) by (simp add: renderHighlighted_shows in_div_def)
  from first second show ?thesis by blast
qed

theorem renderHighlighted_overlap_witness:
  \<open>walk object_prototype (lit ''a<cdefg&ij'')
      (take (Suc (Suc 0))
        [\<lparr>e_text = lit ''a<cde'', e_label = lit ''X'', e_start = 0, e_end = 5\<rparr>,
         \<lparr>e_text = lit ''defg&'', e_label = lit ''Y'', e_start = 3, e_end = 8\<rparr>]) =
     (8, spec_mark object_prototype (lit ''a<cdefg&ij'')
           \<lparr>e_text = lit ''a<cde'', e_label = lit ''X'', e_start = 0, e_end = 5\<rparr>
         @ spec_mark object_prototype (lit ''a<cdefg&ij'')
           \<lparr>e_text = lit ''defg&'', e_label = lit ''Y'', e_start = 3, e_end = 8\<rparr>)
   \<and> walk object_prototype (lit ''a<cdefg&ij'')
      (take (Suc (Suc 0))
        [\<lparr>e_text = lit ''a<cde'', e_label = lit ''X'', e_start = 0, e_end = 5\<rparr>,
         \<lparr>e_text = lit ''defg&'', e_label = lit ''Y'', e_start = 3, e_end = 8\<rparr>]) =
     (8, lit ''<mark class="entity" style="background:#f2f9ff">a&lt;cde <span class="label">[X]</span></mark><mark class="entity" style="background:#f2f9ff">defg&amp; <span class="label">[Y]</span></mark>'')
   \<and> highlight (renderHighlighted (lit ''a<cdefg&ij'') (Some 0)
        \<lparr>arrays = no_arrays(0 :=
           [\<lparr>e_text = lit ''defg&'', e_label = lit ''Y'', e_start = 3, e_end = 8\<rparr>,
            \<lparr>e_text = lit ''a<cde'', e_label = lit ''X'', e_start = 0, e_end = 5\<rparr>]),
         highlight = TextContent [], entitiesDiv = TextContent [],
         inherited = object_prototype\<rparr>) =
     InnerHTML (lit ''<div style="line-height:1.5;"><mark class="entity" style="background:#f2f9ff">a&lt;cde <span class="label">[X]</span></mark><mark class="entity" style="background:#f2f9ff">defg&amp; <span class="label">[Y]</span></mark>ij</div>'')\<close>
proof (intro conjI)
  let ?x = "\<lparr>e_text = lit ''a<cde'', e_label = lit ''X'', e_start = 0, e_end = 5\<rparr>"
  let ?y = "\<lparr>e_text = lit ''defg&'', e_label = lit ''Y'', e_start = 3, e_end = 8\<rparr>"
  let ?\<sigma> = "\<lparr>arrays = no_arrays(0 := [?y, ?x]),
         highlight = TextContent [], entitiesDiv = TextContent [],
         inherited = object_prototype\<rparr>"
  have sorted_es: "[?x, ?y] = sort_key e_start (arrays ?\<sigma> 0)"
    by simp
  have two: "Suc 0 < length [?x, ?y]"
    by simp
  have overlap: "e_start ([?x, ?y] ! Suc 0) < e_end ([?x, ?y] ! 0)"
    by simp
  have nothing_before: "walk object_prototype (lit ''a<cdefg&ij'') [] = (0, [])"
    by (simp add: walk_def)
  show "walk object_prototype (lit ''a<cdefg&ij'') (take (Suc (Suc 0)) [?x, ?y]) =
          (8, spec_mark object_prototype (lit ''a<cdefg&ij'') ?x
              @ spec_mark object_prototype (lit ''a<cdefg&ij'') ?y)"
    using renderHighlighted_overlap [OF sorted_es two overlap, of "lit ''a<cdefg&ij''",
            THEN conjunct1]
    by (simp add: nothing_before)
next
  show \<open>walk object_prototype (lit ''a<cdefg&ij'')
      (take (Suc (Suc 0))
        [\<lparr>e_text = lit ''a<cde'', e_label = lit ''X'', e_start = 0, e_end = 5\<rparr>,
         \<lparr>e_text = lit ''defg&'', e_label = lit ''Y'', e_start = 3, e_end = 8\<rparr>]) =
     (8, lit ''<mark class="entity" style="background:#f2f9ff">a&lt;cde <span class="label">[X]</span></mark><mark class="entity" style="background:#f2f9ff">defg&amp; <span class="label">[Y]</span></mark>'')\<close>
    by (simp add: walk_def loop_body_def eval_defs)
next
  show \<open>highlight (renderHighlighted (lit ''a<cdefg&ij'') (Some 0)
        \<lparr>arrays = no_arrays(0 :=
           [\<lparr>e_text = lit ''defg&'', e_label = lit ''Y'', e_start = 3, e_end = 8\<rparr>,
            \<lparr>e_text = lit ''a<cde'', e_label = lit ''X'', e_start = 0, e_end = 5\<rparr>]),
         highlight = TextContent [], entitiesDiv = TextContent [],
         inherited = object_prototype\<rparr>) =
     InnerHTML (lit ''<div style="line-height:1.5;"><mark class="entity" style="background:#f2f9ff">a&lt;cde <span class="label">[X]</span></mark><mark class="entity" style="background:#f2f9ff">defg&amp; <span class="label">[Y]</span></mark>ij</div>'')\<close>
    by (simp add: renderHighlighted_def walk_def finish_def loop_body_def eval_defs)
qed

text \<open>
  C10. For every entity of the array, what is shown contains the escaped
  substring of the entity followed by the label markup with the label's
  characters as they are, unescaped; a pass of the loop appends the escaped text
  of the gap, if any, and that markup; and \<open>escapeHtml\<close> replaces the ampersand
  and the two angle brackets, character by character, and leaves every other
  character, the quotes among them, as it is.
\<close>

theorem renderHighlighted_label_verbatim:
  assumes "e \<in> set (arrays \<sigma> r)"
  shows \<open>(\<exists>pre post. highlight (renderHighlighted text (Some r) \<sigma>) =
            InnerHTML (pre @ escapeHtml (slice text (e_start e) (e_end e))
                         @ lit '' <span class="label">['' @ e_label e @ lit '']</span></mark>''
                         @ post))
         \<and> (\<forall>cursor out. snd (loop_body (inherited \<sigma>) text e (cursor, out)) =
              out @ (if cursor < e_start e then escapeHtml (slice text cursor (e_start e)) else [])
                  @ entity_mark (inherited \<sigma>) text e)
         \<and> (\<forall>str. escapeHtml str =
              concat (map (\<lambda>c. if c = 38 then lit ''&amp;'' else if c = 60 then lit ''&lt;''
                                else if c = 62 then lit ''&gt;'' else [c]) str))\<close>
proof (intro conjI allI)
  let ?sorted = "sort_key e_start (arrays \<sigma> r)"
  have "e \<in> set ?sorted"
    using assms by simp
  then obtain p q where out:
    "finish text (walk (inherited \<sigma>) text ?sorted) = p @ entity_mark (inherited \<sigma>) text e @ q"
    using finish_fold_contains [of e ?sorted "text" "inherited \<sigma>" 0 "[]"]
    by (auto simp: walk_def)
  have filled: "?sorted \<noteq> []"
    using assms by (auto simp: sort_key_Nil_iff)
  have \<open>highlight (renderHighlighted text (Some r) \<sigma>) =
      InnerHTML ((lit ''<div style="line-height:1.5;">'' @ p
                   @ lit ''<mark class="entity" style="background:''
                   @ bg_of (inherited \<sigma>) (e_label e) @ lit ''">'')
                 @ escapeHtml (slice text (e_start e) (e_end e))
                 @ lit '' <span class="label">['' @ e_label e @ lit '']</span></mark>''
                 @ (q @ lit ''</div>''))\<close>
    using filled by (simp add: renderHighlighted_shows out in_div_def entity_mark_def mark_def)
  then show \<open>\<exists>pre post. highlight (renderHighlighted text (Some r) \<sigma>) =
            InnerHTML (pre @ escapeHtml (slice text (e_start e) (e_end e))
                         @ lit '' <span class="label">['' @ e_label e @ lit '']</span></mark>''
                         @ post)\<close>
    by blast
next
  fix cursor out
  show "snd (loop_body (inherited \<sigma>) text e (cursor, out)) =
          out @ (if cursor < e_start e then escapeHtml (slice text cursor (e_start e)) else [])
              @ entity_mark (inherited \<sigma>) text e"
    by (simp add: loop_body_eq gap_text_def)
next
  fix str
  show "escapeHtml str =
          concat (map (\<lambda>c. if c = 38 then lit ''&amp;'' else if c = 60 then lit ''&lt;''
                            else if c = 62 then lit ''&gt;'' else [c]) str)"
    by (rule escapeHtml_chars)
qed

theorem renderHighlighted_label_verbatim_witness:
  \<open>\<lparr>e_text = lit ''a<b'', e_label = lit ''<i>'', e_start = 0, e_end = 3\<rparr>
      \<in> set [\<lparr>e_text = lit ''a<b'', e_label = lit ''<i>'', e_start = 0, e_end = 3\<rparr>]
   \<and> (\<exists>pre post.
        highlight (renderHighlighted (lit ''a<b'') (Some 0)
          \<lparr>arrays = no_arrays(0 :=
             [\<lparr>e_text = lit ''a<b'', e_label = lit ''<i>'', e_start = 0, e_end = 3\<rparr>]),
           highlight = TextContent [], entitiesDiv = TextContent [],
           inherited = object_prototype\<rparr>) =
        InnerHTML (pre @ lit ''a&lt;b'' @ lit '' <span class="label">[<i>]</span></mark>'' @ post))\<close>
  using renderHighlighted_label_verbatim [THEN conjunct1,
    of "\<lparr>e_text = lit ''a<b'', e_label = lit ''<i>'', e_start = 0, e_end = 3\<rparr>"
       "\<lparr>arrays = no_arrays(0 :=
             [\<lparr>e_text = lit ''a<b'', e_label = lit ''<i>'', e_start = 0, e_end = 3\<rparr>]),
           highlight = TextContent [], entitiesDiv = TextContent [],
           inherited = object_prototype\<rparr>" 0 "lit ''a<b''"]
  by (simp add: eval_defs)

text \<open>
  C5, as amended. \<open>renderEntitiesTable\<close> writes one row per entity in the order
  of the array it is given. In the click handler that array has been sorted in
  place by \<open>renderHighlighted\<close> before, so the rows are in ascending order of
  \<open>start\<close>, entities of equal \<open>start\<close> in the order of the service.
\<close>

theorem table_rows_in_array_order:
  "entitiesDiv (renderEntitiesTable (Some r) \<sigma>) =
     (if arrays \<sigma> r = [] then InnerHTML (lit ''No entities detected.'')
      else InnerHTML (table_head @ concat (map table_row (arrays \<sigma> r)) @ lit ''</tbody></table>''))
   \<and> entitiesDiv (show_analysis text r \<sigma>) =
     (if arrays \<sigma> r = [] then InnerHTML (lit ''No entities detected.'')
      else InnerHTML (table_head @ concat (map table_row (sort_key e_start (arrays \<sigma> r)))
                        @ lit ''</tbody></table>''))"
  by (simp add: show_analysis_def renderEntitiesTable_def renderHighlighted_sorts Let_def
        fold_rows sort_key_Nil_iff)

theorem table_rows_counterexample:
  "entitiesDiv (show_analysis (lit ''Al Rome'') 0
      \<lparr>arrays = no_arrays(0 :=
         [\<lparr>e_text = lit ''Rome'', e_label = lit ''GPE'', e_start = 3, e_end = 7\<rparr>,
          \<lparr>e_text = lit ''Al'', e_label = lit ''PERSON'', e_start = 0, e_end = 2\<rparr>]),
       highlight = TextContent [], entitiesDiv = TextContent [],
       inherited = object_prototype\<rparr>) =
     InnerHTML (table_head
       @ table_row \<lparr>e_text = lit ''Al'', e_label = lit ''PERSON'', e_start = 0, e_end = 2\<rparr>
       @ table_row \<lparr>e_text = lit ''Rome'', e_label = lit ''GPE'', e_start = 3, e_end = 7\<rparr>
       @ lit ''</tbody></table>'')
   \<and> entitiesDiv (show_analysis (lit ''Al Rome'') 0
      \<lparr>arrays = no_arrays(0 :=
         [\<lparr>e_text = lit ''Rome'', e_label = lit ''GPE'', e_start = 3, e_end = 7\<rparr>,
          \<lparr>e_text = lit ''Al'', e_label = lit ''PERSON'', e_start = 0, e_end = 2\<rparr>]),
       highlight = TextContent [], entitiesDiv = TextContent [],
       inherited = object_prototype\<rparr>) \<noteq>
     InnerHTML (table_head
       @ table_row \<lparr>e_text = lit ''Rome'', e_label = lit ''GPE'', e_start = 3, e_end = 7\<rparr>
       @ table_row \<lparr>e_text = lit ''Al'', e_label = lit ''PERSON'', e_start = 0, e_end = 2\<rparr>
       @ lit ''</tbody></table>'')"
  by (simp add: show_analysis_def renderEntitiesTable_def renderHighlighted_def walk_def
        finish_def loop_body_def table_row_def table_head_def num_str_def eval_defs)

end
